theory Spec2Isabelle
  imports Complex_Main
begin

section \<open>Eigen gates: the data model\<close>

text \<open>
  The development embeds \<^verbatim>\<open>cirq/ops/eigen_gate.py\<close>. Python's \<^verbatim>\<open>float\<close> is read as
  a mathematical real and \<^verbatim>\<open>complex\<close> as a complex number: rounding, infinities and NaN
  are outside the model. Python and numpy integers are unbounded integers.

  An exponent is either a number or a \<^verbatim>\<open>value.Symbol\<close>, which carries a name.
\<close>

datatype exponent_val = Float real | Symbol string

text \<open>
  A class is known by its name and the names of its proper ancestors (the tail of its
  method resolution order). \<^verbatim>\<open>type(self)\<close> of an instance is such a class, and
  \<^verbatim>\<open>isinstance(other, cls)\<close> holds when the class of \<^verbatim>\<open>other\<close> is \<^verbatim>\<open>cls\<close> or inherits
  from it.
\<close>

record pytype =
  type_name :: string
  type_bases :: "string list"

definition issubclass :: "pytype \<Rightarrow> pytype \<Rightarrow> bool" where
  "issubclass c d \<longleftrightarrow> c = d \<or> type_name d \<in> set (type_bases c)"

text \<open>
  The fields that \<^verbatim>\<open>EigenGate.__init__\<close> sets, together with the class of the instance.
\<close>

record eigen_gate =
  gate_type :: pytype
  exponent :: exponent_val
  global_negate_rate :: real
  canonical_exponent_cached :: "exponent_val option"

definition isinstance :: "eigen_gate \<Rightarrow> pytype \<Rightarrow> bool" where
  "isinstance obj cls \<longleftrightarrow> issubclass (gate_type obj) cls"

type_synonym matrix = "complex list list"

text \<open>An \<^verbatim>\<open>EigenComponent\<close>: the eigenvalue exponent factor and the eigenspace projector.\<close>

type_synonym eigen_component = "real \<times> matrix"

text \<open>
  The result of a method that may hand back Python's \<^verbatim>\<open>NotImplemented\<close> sentinel
  instead of a value.
\<close>

datatype 'a py_result = NotImplemented | Value 'a

datatype error = ValueError

text \<open>What \<^verbatim>\<open>np.sum\<close> hands back: a scalar or a two-dimensional array.\<close>

datatype ndarray = Scalar complex | Matrix matrix

section \<open>Construction\<close>

definition EigenGate_init :: "pytype \<Rightarrow> exponent_val \<Rightarrow> real \<Rightarrow> eigen_gate" where
  "EigenGate_init cls e rate =
     \<lparr>gate_type = cls, exponent = e, global_negate_rate = rate,
      canonical_exponent_cached = None\<rparr>"

text \<open>
  The base-class \<^verbatim>\<open>_with_exponent\<close>: \<^verbatim>\<open>type(self)(exponent=..., global_negate_rate=...)\<close>.
\<close>

definition with_exponent :: "eigen_gate \<Rightarrow> exponent_val \<Rightarrow> eigen_gate" where
  "with_exponent self e = EigenGate_init (gate_type self) e (global_negate_rate self)"

section \<open>The period of the exponent\<close>

text \<open>\<^verbatim>\<open>np.round\<close> rounds to the nearest integer, a tie going to the even neighbour.\<close>

definition np_round :: "real \<Rightarrow> int" where
  "np_round x =
     (let f = \<lfloor>x\<rfloor>; d = x - of_int f
      in if d < 1 / 2 then f
         else if 1 / 2 < d then f + 1
         else if even f then f else f + 1)"

text \<open>
  \<^verbatim>\<open>np.lcm.reduce\<close> folds \<^verbatim>\<open>np.lcm\<close> from the left over a non-empty array. It has no
  identity, so the empty array raises; \<^verbatim>\<open>_period\<close> returns before it could be reached
  with one, and the model gives that unreachable call the value 0.
\<close>

fun np_lcm_reduce :: "int list \<Rightarrow> int" where
  "np_lcm_reduce [] = 0"
| "np_lcm_reduce (x # xs) = foldl lcm x xs"

text \<open>
  \<^verbatim>\<open>_period\<close>. The abstract method \<^verbatim>\<open>_eigen_components\<close> is supplied by the subclass; it
  is the parameter \<open>ec\<close>, a function of the instance. The result is Python's \<^verbatim>\<open>None\<close>
  or an integer.
\<close>

definition period :: "(eigen_gate \<Rightarrow> eigen_component list) \<Rightarrow> eigen_gate \<Rightarrow> int option" where
  "period ec self =
     (let exponents = map (\<lambda>(e, _). e + global_negate_rate self) (ec self);
          real_periods = map (\<lambda>e. \<bar>2 / e\<bar>) (filter (\<lambda>e. e \<noteq> 0) exponents)
      in if real_periods = [] then Some 0
         else
           let int_periods = map np_round real_periods
           in if list_ex (\<lambda>(i, r). i \<noteq> of_int r) (zip real_periods int_periods) then None
              else Some (np_lcm_reduce int_periods))"

section \<open>The canonical exponent\<close>

text \<open>
  Python's \<^verbatim>\<open>%\<close> on numbers takes the sign of the divisor. It is only evaluated with a
  period that passed the test \<^verbatim>\<open>not period\<close>, so the divisor is never zero.
\<close>

definition py_mod :: "real \<Rightarrow> real \<Rightarrow> real" where
  "py_mod x p = x - p * of_int \<lfloor>x / p\<rfloor>"

text \<open>\<^verbatim>\<open>not period\<close>: true of \<^verbatim>\<open>None\<close> and of 0.\<close>

definition py_not :: "int option \<Rightarrow> bool" where
  "py_not p \<longleftrightarrow> (case p of None \<Rightarrow> True | Some n \<Rightarrow> n = 0)"

fun is_Symbol :: "exponent_val \<Rightarrow> bool" where
  "is_Symbol (Symbol _) = True"
| "is_Symbol (Float _) = False"

text \<open>The value that the property \<^verbatim>\<open>_canonical_exponent\<close> computes when the cache is empty.\<close>

definition canonicalize :: "int option \<Rightarrow> exponent_val \<Rightarrow> exponent_val" where
  "canonicalize p e =
     (if py_not p \<or> is_Symbol e then e
      else case (e, p) of
             (Float x, Some n) \<Rightarrow> Float (py_mod x (of_int n))
           | _ \<Rightarrow> e)"

text \<open>
  The property \<^verbatim>\<open>_canonical_exponent\<close> fills the cache on first use; the instance is
  returned with the value.
\<close>

definition canonical_exponent ::
  "(eigen_gate \<Rightarrow> eigen_component list) \<Rightarrow> eigen_gate \<Rightarrow> exponent_val \<times> eigen_gate" where
  "canonical_exponent ec self =
     (case canonical_exponent_cached self of
        Some c \<Rightarrow> (c, self)
      | None \<Rightarrow>
          let c = canonicalize (period ec self) (exponent self)
          in (c, self\<lparr>canonical_exponent_cached := Some c\<rparr>))"

section \<open>Identity and equality\<close>

definition identity_tuple ::
  "(eigen_gate \<Rightarrow> eigen_component list) \<Rightarrow> eigen_gate
     \<Rightarrow> (pytype \<times> exponent_val \<times> real) \<times> eigen_gate" where
  "identity_tuple ec self =
     (let (c, self') = canonical_exponent ec self
      in ((gate_type self, c, global_negate_rate self), self'))"

text \<open>
  \<^verbatim>\<open>__eq__\<close>. Both operands are returned, since reading the canonical exponent may
  fill their caches.
\<close>

definition EigenGate_eq ::
  "(eigen_gate \<Rightarrow> eigen_component list) \<Rightarrow> eigen_gate \<Rightarrow> eigen_gate
     \<Rightarrow> bool py_result \<times> eigen_gate \<times> eigen_gate" where
  "EigenGate_eq ec self other =
     (if \<not> isinstance other (gate_type self) then (NotImplemented, self, other)
      else
        let (t1, self') = identity_tuple ec self;
            (t2, other') = identity_tuple ec other
        in (Value (t1 = t2), self', other'))"

text \<open>
  An instance is immutable but for its cache, which holds nothing or the value that
  \<^verbatim>\<open>_canonical_exponent\<close> stored there.
\<close>

definition cache_ok :: "(eigen_gate \<Rightarrow> eigen_component list) \<Rightarrow> eigen_gate \<Rightarrow> bool" where
  "cache_ok ec self \<longleftrightarrow>
     (case canonical_exponent_cached self of
        None \<Rightarrow> True
      | Some c \<Rightarrow> c = canonicalize (period ec self) (exponent self))"

section \<open>Powers\<close>

text \<open>
  Modelled from the spec: \<^verbatim>\<open>protocols.mul\<close> and the arithmetic of \<^verbatim>\<open>value.Symbol\<close> are
  not part of the file. The product of two numbers is their product; a combination with a
  symbolic operand is left to \<open>symbol_mul\<close>, which yields a product or declines with
  \<^verbatim>\<open>NotImplemented\<close>.
\<close>

fun protocols_mul ::
  "(exponent_val \<Rightarrow> exponent_val \<Rightarrow> exponent_val py_result)
     \<Rightarrow> exponent_val \<Rightarrow> exponent_val \<Rightarrow> exponent_val py_result" where
  "protocols_mul symbol_mul (Float x) (Float y) = Value (Float (x * y))"
| "protocols_mul symbol_mul lhs rhs = symbol_mul lhs rhs"

text \<open>\<^verbatim>\<open>__pow__\<close>, with the multiplication protocol as the parameter \<open>mul\<close>.\<close>

definition EigenGate_pow ::
  "(exponent_val \<Rightarrow> exponent_val \<Rightarrow> exponent_val py_result)
     \<Rightarrow> eigen_gate \<Rightarrow> exponent_val \<Rightarrow> eigen_gate py_result" where
  "EigenGate_pow mul self e =
     (case mul (exponent self) e of
        NotImplemented \<Rightarrow> NotImplemented
      | Value new_exponent \<Rightarrow> Value (with_exponent self new_exponent))"

section \<open>The matrix\<close>

definition is_parameterized :: "eigen_gate \<Rightarrow> bool" where
  "is_parameterized self \<longleftrightarrow> is_Symbol (exponent self)"

definition has_unitary :: "eigen_gate \<Rightarrow> bool" where
  "has_unitary self \<longleftrightarrow> \<not> is_parameterized self"

text \<open>
  \<^verbatim>\<open>1j ** x\<close> for a real \<open>x\<close>: the principal power of the imaginary unit, whose modulus
  is 1 and whose argument is \<open>\<pi> / 2\<close>.
\<close>

definition imag_unit_pow :: "real \<Rightarrow> complex" where
  "imag_unit_pow x = cis (pi / 2 * x)"

definition scale :: "matrix \<Rightarrow> complex \<Rightarrow> matrix" where
  "scale m z = map (map (\<lambda>a. a * z)) m"

definition matrix_add :: "matrix \<Rightarrow> matrix \<Rightarrow> matrix" where
  "matrix_add a b = map2 (map2 (+)) a b"

definition same_shape :: "matrix \<Rightarrow> matrix \<Rightarrow> bool" where
  "same_shape a b \<longleftrightarrow> map length a = map length b"

text \<open>
  \<^verbatim>\<open>np.sum(ms, axis=0)\<close>: the sum of no arrays is the scalar 0, arrays of one shape are
  added entry by entry, and arrays of different shapes do not stack.
\<close>

fun np_sum_axis0 :: "matrix list \<Rightarrow> error + ndarray" where
  "np_sum_axis0 [] = Inr (Scalar 0)"
| "np_sum_axis0 (m # ms) =
     (if list_all (same_shape m) ms then Inr (Matrix (foldl matrix_add m ms))
      else Inl ValueError)"

definition unitary ::
  "(eigen_gate \<Rightarrow> eigen_component list) \<Rightarrow> eigen_gate \<Rightarrow> (error + ndarray) py_result" where
  "unitary ec self =
     (if is_parameterized self then NotImplemented
      else case exponent self of
             Symbol _ \<Rightarrow> NotImplemented
           | Float e \<Rightarrow>
               Value (np_sum_axis0
                 (map (\<lambda>(half_turns, component).
                         scale component
                           (imag_unit_pow (2 * e * (half_turns + global_negate_rate self))))
                    (ec self))))"

section \<open>The trace distance bound\<close>

text \<open>Python's \<^verbatim>\<open>min\<close> and \<^verbatim>\<open>max\<close> of a list raise on the empty list.\<close>

fun py_min :: "real list \<Rightarrow> error + real" where
  "py_min [] = Inl ValueError"
| "py_min (x # xs) = Inr (foldl min x xs)"

fun py_max :: "real list \<Rightarrow> error + real" where
  "py_max [] = Inl ValueError"
| "py_max (x # xs) = Inr (foldl max x xs)"

definition trace_distance_bound ::
  "(eigen_gate \<Rightarrow> eigen_component list) \<Rightarrow> eigen_gate \<Rightarrow> error + real" where
  "trace_distance_bound ec self =
     (case exponent self of
        Symbol _ \<Rightarrow> Inr 1
      | Float e \<Rightarrow>
          let angles = map (\<lambda>(half_turns, _). half_turns) (ec self)
          in (case py_min angles of
                Inl err \<Rightarrow> Inl err
              | Inr min_angle \<Rightarrow>
                  (case py_max angles of
                     Inl err \<Rightarrow> Inl err
                   | Inr max_angle \<Rightarrow> Inr \<bar>(max_angle - min_angle) * e * 3.5\<bar>)))"

section \<open>Example gates\<close>

text \<open>
  The eigencomponents of the Pauli Z gate, as the docstring of \<^verbatim>\<open>_eigen_components\<close>
  gives them, a class for it and a class that inherits from that one.
\<close>

definition Z_components :: "eigen_component list" where
  "Z_components = [(0, [[1, 0], [0, 0]]), (1, [[0, 0], [0, 1]])]"

definition ZGate :: pytype where
  "ZGate = \<lparr>type_name = ''ZGate'', type_bases = [''EigenGate'']\<rparr>"

definition SubZGate :: pytype where
  "SubZGate = \<lparr>type_name = ''SubZGate'', type_bases = [''ZGate'', ''EigenGate'']\<rparr>"

text \<open>A gate with a single eigenspace, of angle 0.\<close>

definition I_components :: "eigen_component list" where
  "I_components = [(0, [[1, 0], [0, 1]])]"

definition IGate :: pytype where
  "IGate = \<lparr>type_name = ''IGate'', type_bases = [''EigenGate'']\<rparr>"

text \<open>The \<^verbatim>\<open>_eigen_components\<close> methods of the example classes.\<close>

definition ZGate_eigen_components :: "eigen_gate \<Rightarrow> eigen_component list" where
  "ZGate_eigen_components self = Z_components"

definition IGate_eigen_components :: "eigen_gate \<Rightarrow> eigen_component list" where
  "IGate_eigen_components self = I_components"

text \<open>A symbol type that defines no multiplication: every product with it is declined.\<close>

definition no_symbol_mul :: "exponent_val \<Rightarrow> exponent_val \<Rightarrow> exponent_val py_result" where
  "no_symbol_mul lhs rhs = NotImplemented"

section \<open>The period as the specification words it\<close>

text \<open>
  The period derivation in the words of the specification: shift every eigen-angle by the
  global phase-shift rate; each nonzero shifted angle \<open>e\<close> gives the candidate
  \<open>\<bar>2 / e\<bar>\<close>; without a nonzero angle the period is 0; if a candidate differs from its
  nearest integer there is no period; otherwise the period is the least common multiple
  of the candidates.
\<close>

definition period_spec :: "eigen_component list \<Rightarrow> real \<Rightarrow> int option" where
  "period_spec components shift =
     (let shifted = map (\<lambda>c. fst c + shift) components;
          candidates = map (\<lambda>e. \<bar>2 / e\<bar>) (filter (\<lambda>e. e \<noteq> 0) shifted)
      in if candidates = [] then Some 0
         else if \<exists>c \<in> set candidates. of_int (round c) \<noteq> c then None
         else Some (Lcm (round ` set candidates)))"

section \<open>Evaluation and basic facts\<close>

lemmas gate_eval =
  EigenGate_init_def ZGate_def SubZGate_def IGate_def ZGate_eigen_components_def
  IGate_eigen_components_def Z_components_def I_components_def period_def np_round_def
  canonical_exponent_def canonicalize_def py_not_def py_mod_def cache_ok_def
  isinstance_def issubclass_def Let_def split_def

subsection \<open>Rounding and least common multiples\<close>

lemma np_round_of_int: "np_round (of_int n) = n"
  by (simp add: np_round_def)

lemma np_round_fixed_iff: "of_int (np_round x) = x \<longleftrightarrow> x \<in> \<int>"
proof
  assume "of_int (np_round x) = x"
  then have "x = of_int (np_round x)" by simp
  then show "x \<in> \<int>" by (metis Ints_of_int)
next
  assume "x \<in> \<int>"
  then obtain n where "x = of_int n" by (auto elim: Ints_cases)
  then show "of_int (np_round x) = x" by (simp add: np_round_of_int)
qed

lemma round_fixed_iff: "of_int (round x) = (x::real) \<longleftrightarrow> x \<in> \<int>"
proof
  assume "of_int (round x) = x"
  then have "x = of_int (round x)" by simp
  then show "x \<in> \<int>" by (metis Ints_of_int)
next
  assume "x \<in> \<int>"
  then obtain n where "x = of_int n" by (auto elim: Ints_cases)
  then show "of_int (round x) = x" by simp
qed

lemma np_round_eq_round: "x \<in> \<int> \<Longrightarrow> np_round x = round x"
  by (auto elim!: Ints_cases simp: np_round_of_int)

lemma list_ex_zip_map:
  "list_ex P (zip xs (map f xs)) \<longleftrightarrow> (\<exists>x \<in> set xs. P (x, f x))"
  by (induction xs) auto

lemma foldl_lcm_Lcm: "0 \<le> x \<Longrightarrow> foldl lcm x xs = Lcm (set (x # xs))" for x :: int
proof (induction xs arbitrary: x)
  case Nil
  then show ?case by simp
next
  case (Cons y ys)
  have "foldl lcm x (y # ys) = foldl lcm (lcm x y) ys" by simp
  also have "\<dots> = Lcm (set (lcm x y # ys))" by (rule Cons.IH) simp
  also have "\<dots> = Lcm (set (x # y # ys))" by (simp add: lcm.assoc)
  finally show ?case .
qed

lemma np_lcm_reduce_Lcm:
  assumes "xs \<noteq> []" "\<forall>x \<in> set xs. 0 \<le> x"
  shows "np_lcm_reduce xs = Lcm (set xs)"
  using assms by (cases xs) (simp_all add: foldl_lcm_Lcm del: foldl_Cons)

subsection \<open>The period\<close>

lemma period_eq_spec: "period ec self = period_spec (ec self) (global_negate_rate self)"
proof -
  define rs where "rs = map (\<lambda>e. \<bar>2 / e\<bar>)
      (filter (\<lambda>e. e \<noteq> 0) (map (\<lambda>(e, _). e + global_negate_rate self) (ec self)))"
  have rs': "rs = map (\<lambda>e. \<bar>2 / e\<bar>)
      (filter (\<lambda>e. e \<noteq> 0) (map (\<lambda>c. fst c + global_negate_rate self) (ec self)))"
    by (simp add: rs_def split_def)
  have pos: "\<forall>r \<in> set rs. 0 \<le> r" by (auto simp: rs_def)
  have ex: "list_ex (\<lambda>(i, r). i \<noteq> of_int r) (zip rs (map np_round rs))
      \<longleftrightarrow> (\<exists>c \<in> set rs. of_int (round c) \<noteq> c)"
    unfolding list_ex_zip_map using np_round_fixed_iff round_fixed_iff by (auto simp: eq_commute)
  have l: "np_lcm_reduce (map np_round rs) = Lcm (round ` set rs)"
    if "rs \<noteq> []" "\<not> (\<exists>c \<in> set rs. of_int (round c) \<noteq> c)"
  proof -
    from that(2) have ints: "\<forall>c \<in> set rs. c \<in> \<int>" using round_fixed_iff by blast
    then have m: "map np_round rs = map round rs" by (simp add: np_round_eq_round)
    have "\<forall>x \<in> set (map round rs). 0 \<le> x" using pos by (auto simp: round_def)
    with that(1) have "np_lcm_reduce (map round rs) = Lcm (set (map round rs))"
      by (intro np_lcm_reduce_Lcm) auto
    then have "np_lcm_reduce (map round rs) = Lcm (round ` set rs)" by simp
    then show ?thesis unfolding m .
  qed
  show ?thesis
    unfolding period_def period_spec_def Let_def rs_def [symmetric] rs' [symmetric]
    using ex l by auto
qed

lemma period_nonneg: "period ec g = Some p \<Longrightarrow> 0 \<le> p"
  by (auto simp: period_eq_spec period_spec_def Let_def split: if_splits)

lemma period_all_zero:
  assumes "\<forall>c \<in> set (ec g). fst c + global_negate_rate g = 0"
  shows "period ec g = Some 0"
proof -
  have "filter (\<lambda>e. e \<noteq> 0) (map (\<lambda>(e, _). e + global_negate_rate g) (ec g)) = []"
    using assms by (auto simp: filter_empty_conv)
  then show ?thesis by (simp add: period_def)
qed

subsection \<open>Python's modulo\<close>

lemma py_mod_range: "0 < p \<Longrightarrow> 0 \<le> py_mod x p \<and> py_mod x p < p"
proof -
  assume p: "0 < p"
  define q where "q = x / p"
  have x: "x = p * q" using p by (simp add: q_def)
  have "of_int \<lfloor>q\<rfloor> \<le> q" and "q < of_int \<lfloor>q\<rfloor> + 1" by linarith+
  then have "p * of_int \<lfloor>q\<rfloor> \<le> p * q" and "p * q < p * (of_int \<lfloor>q\<rfloor> + 1)"
    using p by simp_all
  then show ?thesis unfolding py_mod_def q_def [symmetric] x
    by (simp add: algebra_simps)
qed



subsection \<open>The canonical exponent and its cache\<close>


lemma canonicalize_range:
  assumes "period ec g = Some p" and "p \<noteq> 0" and "exponent g = Float e"
  shows "canonicalize (period ec g) (exponent g) = Float (py_mod e (of_int p))
         \<and> 0 \<le> py_mod e (of_int p) \<and> py_mod e (of_int p) < of_int p"
proof -
  from assms(1,2) have "0 < p" using period_nonneg [of ec g p] by simp
  then have "0 < (of_int p :: real)" by simp
  then show ?thesis using assms by (simp add: canonicalize_def py_not_def py_mod_range)
qed

lemma fst_canonical_exponent:
  "fst (canonical_exponent ec g) =
     (case canonical_exponent_cached g of
        Some c \<Rightarrow> c
      | None \<Rightarrow> canonicalize (period ec g) (exponent g))"
  by (simp add: canonical_exponent_def Let_def split: option.splits)

lemma canonical_exponent_cache_ok:
  "cache_ok ec g \<Longrightarrow> fst (canonical_exponent ec g) = canonicalize (period ec g) (exponent g)"
  by (simp add: fst_canonical_exponent cache_ok_def split: option.splits)

lemma cache_ok_init: "cache_ok ec (EigenGate_init cls e rate)"
  by (simp add: cache_ok_def EigenGate_init_def)

lemma canonical_exponent_fields:
  "gate_type (snd (canonical_exponent ec g)) = gate_type g
   \<and> exponent (snd (canonical_exponent ec g)) = exponent g
   \<and> global_negate_rate (snd (canonical_exponent ec g)) = global_negate_rate g"
  by (simp add: canonical_exponent_def Let_def split: option.splits)

lemma canonical_exponent_keeps_cache_ok:
  assumes "cache_ok ec g" and "ec (snd (canonical_exponent ec g)) = ec g"
  shows "cache_ok ec (snd (canonical_exponent ec g))"
proof -
  have "period ec (snd (canonical_exponent ec g)) = period ec g"
    using assms(2) canonical_exponent_fields [of ec g] by (simp add: period_def)
  with assms(1) canonical_exponent_fields [of ec g] show ?thesis
    by (auto simp: cache_ok_def canonical_exponent_def Let_def split: option.splits)
qed

subsection \<open>Equality\<close>

lemma fst_EigenGate_eq:
  "fst (EigenGate_eq ec g h) =
     (if \<not> isinstance h (gate_type g) then NotImplemented
      else Value (gate_type g = gate_type h
                  \<and> fst (canonical_exponent ec g) = fst (canonical_exponent ec h)
                  \<and> global_negate_rate g = global_negate_rate h))"
  by (simp add: EigenGate_eq_def identity_tuple_def Let_def split_def)

lemma isinstance_same_type: "gate_type h = gate_type g \<Longrightarrow> isinstance h (gate_type g)"
  by (simp add: isinstance_def issubclass_def)

subsection \<open>Minimum and maximum\<close>

lemma foldl_max_Max: "foldl max x xs = Max (set (x # xs))" for x :: real
proof (induction xs arbitrary: x)
  case Nil
  show ?case by simp
next
  case (Cons y ys)
  have "foldl max x (y # ys) = Max (set (max x y # ys))" using Cons.IH by simp
  also have "\<dots> = Max (set (x # y # ys))"
    by (cases "ys = []") (simp_all add: max.assoc)
  finally show ?case .
qed

lemma foldl_min_Min: "foldl min x xs = Min (set (x # xs))" for x :: real
proof (induction xs arbitrary: x)
  case Nil
  show ?case by simp
next
  case (Cons y ys)
  have "foldl min x (y # ys) = Min (set (min x y # ys))" using Cons.IH by simp
  also have "\<dots> = Min (set (x # y # ys))"
    by (cases "ys = []") (simp_all add: min.assoc)
  finally show ?case .
qed

section \<open>The canonical exponent of a gate with a period\<close>

text \<open>
  Claim C1. The docstring of \<^verbatim>\<open>_period\<close> promises an exponent shifted into the range
  \<open>(-p/2, p/2]\<close>. The property \<^verbatim>\<open>_canonical_exponent\<close> computes \<^verbatim>\<open>exponent % period\<close>,
  which lies in \<open>[0, p)\<close> (lemma \<open>canonicalize_range\<close>). For the Pauli Z gate, whose
  period is 2, the exponent 1.5 is its own canonical exponent, and 1.5 is not at most
  \<open>2 / 2\<close>; the representative in \<open>(-1, 1]\<close> would be -0.5.
\<close>

theorem canonical_exponent_three_halves:
  "period ZGate_eigen_components (EigenGate_init ZGate (Float 1.5) 0) = Some 2
   \<and> fst (canonical_exponent ZGate_eigen_components (EigenGate_init ZGate (Float 1.5) 0))
       = Float 1.5
   \<and> \<not> (1.5 \<le> (2::real) / 2)"
  by (simp add: gate_eval)

section \<open>Equality of gates\<close>

text \<open>
  Claim C2, amended. For two gates whose caches are empty or filled by
  \<^verbatim>\<open>_canonical_exponent\<close>, \<^verbatim>\<open>__eq__\<close> answers \<^verbatim>\<open>True\<close> exactly when they have the same
  class, equal canonical exponents and equal global phase-shift rates. It answers
  \<^verbatim>\<open>NotImplemented\<close> when the right operand is not an instance of the class of the left
  one, and \<^verbatim>\<open>False\<close> when the classes differ but the right operand is an instance of
  the class of the left one.
\<close>

theorem eq_iff_identity:
  assumes "cache_ok ec self" and "cache_ok ec other"
  shows "(fst (EigenGate_eq ec self other) = Value True \<longleftrightarrow>
            gate_type self = gate_type other
            \<and> canonicalize (period ec self) (exponent self)
                = canonicalize (period ec other) (exponent other)
            \<and> global_negate_rate self = global_negate_rate other)
         \<and> (\<not> isinstance other (gate_type self) \<longrightarrow>
              fst (EigenGate_eq ec self other) = NotImplemented)
         \<and> (isinstance other (gate_type self) \<and> gate_type self \<noteq> gate_type other \<longrightarrow>
              fst (EigenGate_eq ec self other) = Value False)"
  using assms isinstance_same_type [of other self]
  by (auto simp: fst_EigenGate_eq canonical_exponent_cache_ok)

text \<open>
  As first worded, C2 has every comparison across classes answer \<^verbatim>\<open>NotImplemented\<close>.
  A Z gate compared with an instance of a subclass of its class answers \<^verbatim>\<open>False\<close>.
\<close>

theorem eq_cross_subtype_counterexample:
  "gate_type (EigenGate_init ZGate (Float 1) 0) \<noteq> gate_type (EigenGate_init SubZGate (Float 1) 0)
   \<and> fst (EigenGate_eq ZGate_eigen_components
            (EigenGate_init ZGate (Float 1) 0) (EigenGate_init SubZGate (Float 1) 0))
       = Value False"
  by (simp add: fst_EigenGate_eq gate_eval)

theorem eq_iff_identity_witness:
  "cache_ok ZGate_eigen_components (EigenGate_init ZGate (Float 0.5) 0)
   \<and> cache_ok ZGate_eigen_components (EigenGate_init ZGate (Float 2.5) 0)
   \<and> fst (EigenGate_eq ZGate_eigen_components
            (EigenGate_init ZGate (Float 0.5) 0) (EigenGate_init ZGate (Float 2.5) 0))
       = Value True"
proof -
  let ?g = "EigenGate_init ZGate (Float 0.5) 0" and ?h = "EigenGate_init ZGate (Float 2.5) 0"
  have g: "cache_ok ZGate_eigen_components ?g" and h: "cache_ok ZGate_eigen_components ?h"
    by (simp_all add: cache_ok_def EigenGate_init_def)
  have "gate_type ?g = gate_type ?h
      \<and> canonicalize (period ZGate_eigen_components ?g) (exponent ?g)
          = canonicalize (period ZGate_eigen_components ?h) (exponent ?h)
      \<and> global_negate_rate ?g = global_negate_rate ?h"
    by (simp add: gate_eval)
  with eq_iff_identity [OF g h] have "fst (EigenGate_eq ZGate_eigen_components ?g ?h) = Value True"
    by blast
  with g h show ?thesis by blast
qed

section \<open>The period derivation\<close>



section \<open>Gates with a single eigenspace\<close>

text \<open>
  Claim C4, amended. When every shifted eigen-angle of a gate is zero, its period is 0
  and its canonical exponent is its exponent, unchanged: \<^verbatim>\<open>not period\<close> holds of 0 as
  it does of \<^verbatim>\<open>None\<close>. Two such gates of the same class and the same global
  phase-shift rate are equal exactly when their exponents are equal.
\<close>

theorem degenerate_eq:
  assumes "\<forall>c \<in> set (ec g). fst c + global_negate_rate g = 0"
    and "\<forall>c \<in> set (ec h). fst c + global_negate_rate h = 0"
    and "cache_ok ec g" and "cache_ok ec h"
    and "gate_type g = gate_type h"
    and "global_negate_rate g = global_negate_rate h"
  shows "period ec g = Some 0
         \<and> fst (canonical_exponent ec g) = exponent g
         \<and> fst (EigenGate_eq ec g h) = Value (exponent g = exponent h)"
proof -
  have pg: "period ec g = Some 0" and ph: "period ec h = Some 0"
    using assms(1,2) by (simp_all add: period_all_zero)
  have cg: "fst (canonical_exponent ec g) = exponent g"
    using assms(3) pg by (simp add: canonical_exponent_cache_ok canonicalize_def py_not_def)
  have ch: "fst (canonical_exponent ec h) = exponent h"
    using assms(4) ph by (simp add: canonical_exponent_cache_ok canonicalize_def py_not_def)
  have "isinstance h (gate_type g)" using assms(5) by (simp add: isinstance_same_type)
  then have "fst (EigenGate_eq ec g h) = Value (exponent g = exponent h)"
    using assms(5,6) cg ch by (simp add: fst_EigenGate_eq)
  with pg cg show ?thesis by simp
qed

text \<open>
  As first worded, C4 has any two such gates compare equal. Two gates with the single
  eigen-angle 0 and the exponents 1 and 2 both have the period 0 and are not equal.
\<close>

theorem degenerate_eq_counterexample:
  "period IGate_eigen_components (EigenGate_init IGate (Float 1) 0) = Some 0
   \<and> period IGate_eigen_components (EigenGate_init IGate (Float 2) 0) = Some 0
   \<and> fst (canonical_exponent IGate_eigen_components (EigenGate_init IGate (Float 1) 0)) = Float 1
   \<and> fst (canonical_exponent IGate_eigen_components (EigenGate_init IGate (Float 2) 0)) = Float 2
   \<and> fst (EigenGate_eq IGate_eigen_components
            (EigenGate_init IGate (Float 1) 0) (EigenGate_init IGate (Float 2) 0))
       = Value False"
  by (simp add: fst_EigenGate_eq gate_eval)

theorem degenerate_eq_witness:
  "map (\<lambda>c. fst c + global_negate_rate (EigenGate_init IGate (Float 1) 0))
      (IGate_eigen_components (EigenGate_init IGate (Float 1) 0)) = [0]
   \<and> map (\<lambda>c. fst c + global_negate_rate (EigenGate_init IGate (Float 2) 0))
      (IGate_eigen_components (EigenGate_init IGate (Float 2) 0)) = [0]
   \<and> cache_ok IGate_eigen_components (EigenGate_init IGate (Float 1) 0)
   \<and> cache_ok IGate_eigen_components (EigenGate_init IGate (Float 2) 0)
   \<and> period IGate_eigen_components (EigenGate_init IGate (Float 1) 0) = Some 0
   \<and> fst (canonical_exponent IGate_eigen_components (EigenGate_init IGate (Float 1) 0)) = Float 1
   \<and> fst (EigenGate_eq IGate_eigen_components
            (EigenGate_init IGate (Float 1) 0) (EigenGate_init IGate (Float 2) 0))
       = Value False"
proof -
  let ?g = "EigenGate_init IGate (Float 1) 0" and ?h = "EigenGate_init IGate (Float 2) 0"
  have a: "\<forall>c \<in> set (IGate_eigen_components ?g). fst c + global_negate_rate ?g = 0"
    and b: "\<forall>c \<in> set (IGate_eigen_components ?h). fst c + global_negate_rate ?h = 0"
    by (simp_all add: IGate_eigen_components_def I_components_def EigenGate_init_def)
  have c: "cache_ok IGate_eigen_components ?g" and d: "cache_ok IGate_eigen_components ?h"
    by (simp_all add: cache_ok_def EigenGate_init_def)
  have e: "gate_type ?g = gate_type ?h" and f: "global_negate_rate ?g = global_negate_rate ?h"
    by (simp_all add: EigenGate_init_def)
  have x: "exponent ?g = Float 1" "exponent ?h = Float 2" by (simp_all add: EigenGate_init_def)
  have m: "map (\<lambda>c. fst c + global_negate_rate ?g) (IGate_eigen_components ?g) = [0]"
    "map (\<lambda>c. fst c + global_negate_rate ?h) (IGate_eigen_components ?h) = [0]"
    by (simp_all add: IGate_eigen_components_def I_components_def EigenGate_init_def)
  from degenerate_eq [OF a b c d e f] m c d show ?thesis unfolding x by simp
qed

section \<open>The power of a gate\<close>

text \<open>
  Claim C5. When the multiplication declines, \<^verbatim>\<open>__pow__\<close> returns \<^verbatim>\<open>NotImplemented\<close>.
  When it yields a product, \<^verbatim>\<open>__pow__\<close> returns a new instance of the same class, with
  that product as its exponent and the global phase-shift rate unchanged; for a numeric
  exponent and a numeric multiplier the product is the product of the two numbers.
\<close>

theorem pow_result:
  "(mul (exponent self) m = NotImplemented \<longrightarrow> EigenGate_pow mul self m = NotImplemented)
   \<and> (\<forall>e. mul (exponent self) m = Value e \<longrightarrow>
         EigenGate_pow mul self m =
           Value \<lparr>gate_type = gate_type self, exponent = e,
                  global_negate_rate = global_negate_rate self,
                  canonical_exponent_cached = None\<rparr>)
   \<and> (\<forall>x y. exponent self = Float x \<longrightarrow>
         EigenGate_pow (protocols_mul symbol_mul) self (Float y) =
           Value \<lparr>gate_type = gate_type self, exponent = Float (x * y),
                  global_negate_rate = global_negate_rate self,
                  canonical_exponent_cached = None\<rparr>)"
  by (simp add: EigenGate_pow_def with_exponent_def EigenGate_init_def)

theorem pow_result_witness:
  "protocols_mul no_symbol_mul (exponent (EigenGate_init ZGate (Float 3) 0)) (Float 0.5)
     = Value (Float 1.5)
   \<and> EigenGate_pow (protocols_mul no_symbol_mul) (EigenGate_init ZGate (Float 3) 0) (Float 0.5)
     = Value (EigenGate_init ZGate (Float 1.5) 0)
   \<and> protocols_mul no_symbol_mul (exponent (EigenGate_init ZGate (Float 3) 0)) (Symbol ''t'')
     = NotImplemented
   \<and> EigenGate_pow (protocols_mul no_symbol_mul) (EigenGate_init ZGate (Float 3) 0) (Symbol ''t'')
     = NotImplemented"
proof -
  let ?g = "EigenGate_init ZGate (Float 3) 0"
  have a: "protocols_mul no_symbol_mul (exponent ?g) (Float 0.5) = Value (Float 1.5)"
    by (simp add: EigenGate_init_def)
  have b: "protocols_mul no_symbol_mul (exponent ?g) (Symbol ''t'') = NotImplemented"
    by (simp add: EigenGate_init_def no_symbol_mul_def)
  from a pow_result [of "protocols_mul no_symbol_mul" ?g "Float 0.5"]
  have c: "EigenGate_pow (protocols_mul no_symbol_mul) ?g (Float 0.5)
      = Value (EigenGate_init ZGate (Float 1.5) 0)"
    by (simp add: EigenGate_init_def)
  from b pow_result [of "protocols_mul no_symbol_mul" ?g "Symbol ''t''"]
  have d: "EigenGate_pow (protocols_mul no_symbol_mul) ?g (Symbol ''t'') = NotImplemented"
    by blast
  from a b c d show ?thesis by blast
qed

section \<open>The matrix of the Pauli Z gate and of its square root\<close>

text \<open>
  Claim C6. With the components (0, [[1,0],[0,0]]) and (1, [[0,0],[0,1]]), exponent 1 and
  phase-shift rate 0, \<^verbatim>\<open>_unitary_\<close> gives [[1,0],[0,-1]]; the gate raised to the power
  0.5 has the matrix [[1,0],[0,i]].
\<close>

theorem Z_unitary:
  "unitary ZGate_eigen_components (EigenGate_init cls (Float 1) 0)
     = Value (Inr (Matrix [[1, 0], [0, -1]]))
   \<and> (case EigenGate_pow (protocols_mul symbol_mul) (EigenGate_init cls (Float 1) 0) (Float 0.5) of
         NotImplemented \<Rightarrow> NotImplemented
       | Value h \<Rightarrow> unitary ZGate_eigen_components h)
     = Value (Inr (Matrix [[1, 0], [0, \<i>]]))"
  by (simp add: EigenGate_pow_def with_exponent_def unitary_def is_parameterized_def
      EigenGate_init_def ZGate_eigen_components_def Z_components_def scale_def matrix_add_def
      same_shape_def imag_unit_pow_def)

section \<open>Powers compose\<close>



section \<open>Canonicalization is idempotent and periodic\<close>



section \<open>The trace distance bound\<close>

text \<open>
  Claim C9, amended. \<^verbatim>\<open>_trace_distance_bound_\<close> returns 1 for a symbolic exponent. For a
  numeric exponent \<open>e\<close> and at least one eigen-component it returns the absolute value
  of the whole product, \<open>\<bar>(max_angle - min_angle) * e * 3.5\<bar>\<close>, where the two angles are
  the largest and the smallest eigen-angle; without any eigen-component, \<^verbatim>\<open>min\<close>
  raises.
\<close>

theorem trace_distance_bound_value:
  "(is_Symbol (exponent self) \<longrightarrow> trace_distance_bound ec self = Inr 1)
   \<and> (\<forall>e. exponent self = Float e \<and> ec self \<noteq> [] \<longrightarrow>
         trace_distance_bound ec self =
           Inr \<bar>(Max (fst ` set (ec self)) - Min (fst ` set (ec self))) * e * 3.5\<bar>)
   \<and> (\<forall>e. exponent self = Float e \<and> ec self = [] \<longrightarrow>
         trace_distance_bound ec self = Inl ValueError)"
proof -
  have a: "is_Symbol (exponent self) \<Longrightarrow> trace_distance_bound ec self = Inr 1"
    by (cases "exponent self") (simp_all add: trace_distance_bound_def)
  have b: "trace_distance_bound ec self =
      Inr \<bar>(Max (fst ` set (ec self)) - Min (fst ` set (ec self))) * e * 3.5\<bar>"
    if ex: "exponent self = Float e" and ne: "ec self \<noteq> []" for e
  proof -
    obtain c cs where cs: "ec self = c # cs" using ne by (cases "ec self") auto
    have m: "map (\<lambda>(half_turns, _). half_turns) (ec self) = fst c # map fst cs"
      by (simp add: cs split_def)
    have s: "set (fst c # map fst cs) = fst ` set (ec self)" by (simp add: cs)
    show ?thesis
      using ex unfolding trace_distance_bound_def Let_def m
      by (simp add: foldl_max_Max foldl_min_Min s [symmetric] del: set_simps)
  qed
  have c: "trace_distance_bound ec self = Inl ValueError"
    if "exponent self = Float e" "ec self = []" for e
    using that by (simp add: trace_distance_bound_def)
  from a b c show ?thesis by blast
qed

text \<open>
  As first worded, C9 takes the absolute value of the spread of the angles only. For the
  Z gate with the exponent -1 the bound is 3.5, not -3.5.
\<close>

theorem trace_distance_negative_exponent_counterexample:
  "py_max (map fst (ZGate_eigen_components (EigenGate_init ZGate (Float (- 1)) 0))) = Inr 1
   \<and> py_min (map fst (ZGate_eigen_components (EigenGate_init ZGate (Float (- 1)) 0))) = Inr 0
   \<and> trace_distance_bound ZGate_eigen_components (EigenGate_init ZGate (Float (- 1)) 0)
       = Inr 3.5
   \<and> trace_distance_bound ZGate_eigen_components (EigenGate_init ZGate (Float (- 1)) 0)
       \<noteq> Inr (\<bar>1 - 0\<bar> * (- 1) * 3.5)"
  by (simp add: trace_distance_bound_def gate_eval)

theorem trace_distance_bound_value_witness:
  "exponent (EigenGate_init ZGate (Float (- 1)) 0) = Float (- 1)
   \<and> ZGate_eigen_components (EigenGate_init ZGate (Float (- 1)) 0) \<noteq> []
   \<and> trace_distance_bound ZGate_eigen_components (EigenGate_init ZGate (Float (- 1)) 0)
       = Inr 3.5
   \<and> is_Symbol (exponent (EigenGate_init ZGate (Symbol ''t'') 0))
   \<and> trace_distance_bound ZGate_eigen_components (EigenGate_init ZGate (Symbol ''t'') 0)
       = Inr 1"
proof -
  let ?g = "EigenGate_init ZGate (Float (- 1)) 0" and ?s = "EigenGate_init ZGate (Symbol ''t'') 0"
  have a: "exponent ?g = Float (- 1) \<and> ZGate_eigen_components ?g \<noteq> []"
    by (simp add: EigenGate_init_def ZGate_eigen_components_def Z_components_def)
  have m: "fst ` set (ZGate_eigen_components ?g) = {0, 1}"
    by (simp add: ZGate_eigen_components_def Z_components_def)
  from a trace_distance_bound_value [of ?g ZGate_eigen_components]
  have "trace_distance_bound ZGate_eigen_components ?g =
      Inr \<bar>(Max (fst ` set (ZGate_eigen_components ?g))
            - Min (fst ` set (ZGate_eigen_components ?g))) * (- 1) * 3.5\<bar>"
    by blast
  then have b: "trace_distance_bound ZGate_eigen_components ?g = Inr 3.5"
    unfolding m by simp
  have c: "is_Symbol (exponent ?s)" by (simp add: EigenGate_init_def)
  with trace_distance_bound_value [of ?s ZGate_eigen_components]
  have d: "trace_distance_bound ZGate_eigen_components ?s = Inr 1" by blast
  from a b c d show ?thesis by blast
qed

section \<open>Equality with an instance of a subclass\<close>

text \<open>
  Claim C10. When the right operand is an instance of a strict subclass of the class of
  the left operand, \<^verbatim>\<open>__eq__\<close> answers \<^verbatim>\<open>False\<close>; it answers \<^verbatim>\<open>NotImplemented\<close>
  exactly when the right operand is not an instance of the class of the left operand.
\<close>

theorem eq_subclass_not_equal:
  "(isinstance other (gate_type self) \<and> gate_type other \<noteq> gate_type self \<longrightarrow>
      fst (EigenGate_eq ec self other) = Value False)
   \<and> (fst (EigenGate_eq ec self other) = NotImplemented \<longleftrightarrow>
        \<not> isinstance other (gate_type self))"
  by (auto simp: fst_EigenGate_eq)

theorem eq_subclass_not_equal_witness:
  "isinstance (EigenGate_init SubZGate (Float 1) 0) (gate_type (EigenGate_init ZGate (Float 1) 0))
   \<and> gate_type (EigenGate_init SubZGate (Float 1) 0) \<noteq> gate_type (EigenGate_init ZGate (Float 1) 0)
   \<and> fst (EigenGate_eq ZGate_eigen_components
            (EigenGate_init ZGate (Float 1) 0) (EigenGate_init SubZGate (Float 1) 0))
       = Value False
   \<and> \<not> isinstance (EigenGate_init ZGate (Float 1) 0)
         (gate_type (EigenGate_init SubZGate (Float 1) 0))
   \<and> fst (EigenGate_eq ZGate_eigen_components
            (EigenGate_init SubZGate (Float 1) 0) (EigenGate_init ZGate (Float 1) 0))
       = NotImplemented"
proof -
  let ?z = "EigenGate_init ZGate (Float 1) 0" and ?s = "EigenGate_init SubZGate (Float 1) 0"
  have a: "isinstance ?s (gate_type ?z) \<and> gate_type ?s \<noteq> gate_type ?z"
    by (simp add: isinstance_def issubclass_def EigenGate_init_def ZGate_def SubZGate_def)
  have b: "\<not> isinstance ?z (gate_type ?s)"
    by (simp add: isinstance_def issubclass_def EigenGate_init_def ZGate_def SubZGate_def)
  from a eq_subclass_not_equal [of ?s ?z ZGate_eigen_components]
  have c: "fst (EigenGate_eq ZGate_eigen_components ?z ?s) = Value False" by blast
  from b eq_subclass_not_equal [of ?z ?s ZGate_eigen_components]
  have d: "fst (EigenGate_eq ZGate_eigen_components ?s ?z) = NotImplemented" by blast
  from a b c d show ?thesis by blast
qed

end
